theory Spec2Isabelle
  imports Main "HOL-Library.Char_ord" "HOL-Library.List_Lexorder" "HOL-Library.Word"
begin

unbundle bit_operations_syntax

section \<open>Build configuration\<close>

text \<open>
  \<^verbatim>\<open>tbserve.cpp\<close> is compiled once per variant. The enumeration \<^verbatim>\<open>Variant\<close> is declared in
  the chess engine's headers; the server names \<^verbatim>\<open>CHESS_VARIANT\<close> and \<^verbatim>\<open>ATOMIC_VARIANT\<close>, and
  \<open>OTHER_VARIANT\<close> stands for every enumerator it does not name (the giveaway build of the
  README). The macros \<^verbatim>\<open>ATOMIC\<close>, \<^verbatim>\<open>GAVIOTA\<close> and \<^verbatim>\<open>TABLEBASE_VARIANT\<close> and the global
  \<^verbatim>\<open>Tablebases::MaxCardinality\<close> are fields of the configuration.
\<close>

datatype Variant = CHESS_VARIANT | ATOMIC_VARIANT | OTHER_VARIANT

record config =
  ATOMIC :: bool
  GAVIOTA :: bool
  TABLEBASE_VARIANT :: Variant
  MaxCardinality :: int

section \<open>The position text validator\<close>

text \<open>
  \<^verbatim>\<open>validate_fen\<close> walks a \<^verbatim>\<open>const char *\<close>. The buffer it is given is a list of characters that
  ends with the terminator; the pointer is the part of the buffer not yet read, so \<^verbatim>\<open>*fen++\<close>
  takes the head. A read from the empty list is a read behind the buffer, which C leaves
  undefined: it is the outcome \<open>OutOfBounds\<close>. \<open>Return b\<close> is a \<^verbatim>\<open>return b\<close> of the source, and
  \<open>Continue x\<close> hands the local state to the code that follows.

  The comparisons on \<^verbatim>\<open>char\<close> are the unsigned ones of \<^verbatim>\<open>HOL-Library.Char_ord\<close>. The source
  compares against ASCII ranges only, and a byte above 127 falls outside each range whether
  \<^verbatim>\<open>char\<close> is signed or not.
\<close>

datatype 'a step = OutOfBounds | Return bool | Continue 'a

definition step_bind :: "'a step \<Rightarrow> ('a \<Rightarrow> 'b step) \<Rightarrow> 'b step" where
  "step_bind m f = (case m of OutOfBounds \<Rightarrow> OutOfBounds | Return b \<Rightarrow> Return b | Continue x \<Rightarrow> f x)"

definition NUL :: char where
  "NUL = CHR 0x00"

definition c_str :: "string \<Rightarrow> char list" where
  "c_str s = s @ [NUL]"

text \<open>
  \<^verbatim>\<open>template<Variant> bool validate_kings(int wk, int bk)\<close> with its specialisation for
  \<^verbatim>\<open>ATOMIC_VARIANT\<close>, which exists only under \<^verbatim>\<open>#ifdef ATOMIC\<close>.
\<close>

definition validate_kings :: "bool \<Rightarrow> Variant \<Rightarrow> int \<Rightarrow> int \<Rightarrow> bool" where
  "validate_kings atomic v wk bk =
     (if atomic \<and> v = ATOMIC_VARIANT then wk + bk \<ge> 1 else wk = 1 \<and> bk = 1)"

text \<open>
  The inner loop \<^verbatim>\<open>for (; file <= 7; file++)\<close> of the board scan. A digit adds \<^verbatim>\<open>c - '1'\<close> and
  the \<^verbatim>\<open>continue\<close> runs the \<^verbatim>\<open>file++\<close> of the loop header. The counters \<^verbatim>\<open>wk\<close>, \<^verbatim>\<open>bk\<close> and \<^verbatim>\<open>file\<close>
  are C \<^verbatim>\<open>int\<close>s that grow by at most eight per character of at most 64 squares, far from
  overflow.
\<close>

fun rank_files :: "int \<Rightarrow> bool \<Rightarrow> int \<Rightarrow> int \<Rightarrow> char list \<Rightarrow> (int \<times> int \<times> int \<times> char list) step" where
  "rank_files file last_was_number wk bk [] =
     (if file \<le> 7 then OutOfBounds else Continue (file, wk, bk, []))"
| "rank_files file last_was_number wk bk (c # fen) =
     (if file \<le> 7 then
        (if CHR ''1'' \<le> c \<and> c \<le> CHR ''8'' then
           (if last_was_number then Return False
            else rank_files (file + (of_char c - of_char (CHR ''1'')) + 1) True wk bk fen)
         else if c = CHR ''k'' then rank_files (file + 1) False wk (bk + 1) fen
         else if c = CHR ''K'' then rank_files (file + 1) False (wk + 1) bk fen
         else if c \<in> set ''pPnNbBrRqQ'' then rank_files (file + 1) False wk bk fen
         else Return False)
      else Continue (file, wk, bk, c # fen))"

text \<open>The outer loop \<^verbatim>\<open>for (int rank = 7; rank >= 0; rank--)\<close>.\<close>

fun board_ranks :: "nat \<Rightarrow> int \<Rightarrow> int \<Rightarrow> char list \<Rightarrow> (int \<times> int \<times> char list) step" where
  "board_ranks rank wk bk fen =
     step_bind (rank_files 0 False wk bk fen) (\<lambda>(file, wk', bk', fen1).
       if file \<noteq> 8 then Return False
       else (case fen1 of
               [] \<Rightarrow> OutOfBounds
             | c # fen2 \<Rightarrow>
                 if c = NUL then Return False
                 else if rank > 0 then
                   (if c \<noteq> CHR ''/'' then Return False else board_ranks (rank - 1) wk' bk' fen2)
                 else
                   (if c \<noteq> CHR '' '' then Return False else Continue (wk', bk', fen2))))"

text \<open>Field 2: \<^verbatim>\<open>c = *fen++\<close>, then \<^verbatim>\<open>if (*fen++ != ' ') return false\<close>.\<close>

definition turn_field :: "char list \<Rightarrow> char list step" where
  "turn_field fen =
     (case fen of
        [] \<Rightarrow> OutOfBounds
      | c # fen1 \<Rightarrow>
          if c \<noteq> CHR ''w'' \<and> c \<noteq> CHR ''b'' then Return False
          else (case fen1 of
                  [] \<Rightarrow> OutOfBounds
                | d # fen2 \<Rightarrow> if d \<noteq> CHR '' '' then Return False else Continue fen2))"

text \<open>
  Field 3. In the \<^verbatim>\<open>do ... while ((c = *fen++) != ' ')\<close> loop every \<^verbatim>\<open>continue\<close> jumps to the
  loop condition, which reads the next character.
\<close>

fun castling_loop :: "char \<Rightarrow> char list \<Rightarrow> char list step" where
  "castling_loop c [] =
     (if (CHR ''a'' \<le> c \<and> c \<le> CHR ''h'') \<or> (CHR ''A'' \<le> c \<and> c \<le> CHR ''H'')
         \<or> (c = CHR ''q'' \<or> c = CHR ''Q'') \<or> (c = CHR ''k'' \<or> c = CHR ''K'')
      then OutOfBounds
      else Return False)"
| "castling_loop c (c' # fen) =
     (if (CHR ''a'' \<le> c \<and> c \<le> CHR ''h'') \<or> (CHR ''A'' \<le> c \<and> c \<le> CHR ''H'')
         \<or> (c = CHR ''q'' \<or> c = CHR ''Q'') \<or> (c = CHR ''k'' \<or> c = CHR ''K'')
      then (if c' \<noteq> CHR '' '' then castling_loop c' fen else Continue fen)
      else Return False)"

definition castling_field :: "char list \<Rightarrow> char list step" where
  "castling_field fen =
     (case fen of
        [] \<Rightarrow> OutOfBounds
      | c # fen1 \<Rightarrow>
          if c \<noteq> CHR ''-'' then castling_loop c fen1
          else (case fen1 of
                  [] \<Rightarrow> OutOfBounds
                | d # fen2 \<Rightarrow> if d \<noteq> CHR '' '' then Return False else Continue fen2))"

text \<open>Field 4.\<close>

definition en_passant_field :: "char list \<Rightarrow> char list step" where
  "en_passant_field fen =
     step_bind
       (case fen of
          [] \<Rightarrow> OutOfBounds
        | c # fen1 \<Rightarrow>
            if c \<noteq> CHR ''-'' then
              (if c < CHR ''a'' \<or> c > CHR ''h'' then Return False
               else (case fen1 of
                       [] \<Rightarrow> OutOfBounds
                     | d # fen2 \<Rightarrow>
                         if d \<noteq> CHR ''3'' \<and> d \<noteq> CHR ''6'' then Return False else Continue fen2))
            else Continue fen1)
       (\<lambda>fen3. case fen3 of
                  [] \<Rightarrow> OutOfBounds
                | e # fen4 \<Rightarrow> if e \<noteq> CHR '' '' then Return False else Continue fen4)"

text \<open>
  Field 5: \<^verbatim>\<open>do { if (c < '0' && c > '9') return false; } while ((c = *fen++) != ' ')\<close>. The
  test of the body is kept as the source writes it, with \<^verbatim>\<open>&&\<close>.
\<close>

fun halfmove_loop :: "char \<Rightarrow> char list \<Rightarrow> char list step" where
  "halfmove_loop c [] =
     (if c < CHR ''0'' \<and> c > CHR ''9'' then Return False else OutOfBounds)"
| "halfmove_loop c (c' # fen) =
     (if c < CHR ''0'' \<and> c > CHR ''9'' then Return False
      else if c' \<noteq> CHR '' '' then halfmove_loop c' fen
      else Continue fen)"

definition halfmove_field :: "char list \<Rightarrow> char list step" where
  "halfmove_field fen = (case fen of [] \<Rightarrow> OutOfBounds | c # fen1 \<Rightarrow> halfmove_loop c fen1)"

text \<open>
  Field 6: \<^verbatim>\<open>do { if (c < '0' || c > '9') return false; } while ((c = *fen++) && c != ' ')\<close>,
  which leaves the character that ended the loop in \<^verbatim>\<open>c\<close>.
\<close>

fun fullmove_loop :: "char \<Rightarrow> char list \<Rightarrow> (char \<times> char list) step" where
  "fullmove_loop c [] =
     (if c < CHR ''0'' \<or> c > CHR ''9'' then Return False else OutOfBounds)"
| "fullmove_loop c (c' # fen) =
     (if c < CHR ''0'' \<or> c > CHR ''9'' then Return False
      else if c' \<noteq> NUL \<and> c' \<noteq> CHR '' '' then fullmove_loop c' fen
      else Continue (c', fen))"

definition fullmove_field :: "char list \<Rightarrow> (char \<times> char list) step" where
  "fullmove_field fen = (case fen of [] \<Rightarrow> OutOfBounds | c # fen1 \<Rightarrow> fullmove_loop c fen1)"

text \<open>
  \<^verbatim>\<open>bool validate_fen(const char *fen)\<close> on a buffer. \<open>None\<close> is a read behind the buffer;
  otherwise the result is the value returned.
\<close>

definition validate_fen_steps :: "config \<Rightarrow> char list \<Rightarrow> bool step" where
  "validate_fen_steps cfg fen =
     step_bind (board_ranks 7 0 0 fen) (\<lambda>(wk, bk, fen).
       if \<not> validate_kings (ATOMIC cfg) (TABLEBASE_VARIANT cfg) wk bk then Return False
       else
         step_bind (turn_field fen) (\<lambda>fen.
         step_bind (castling_field fen) (\<lambda>fen.
         step_bind (en_passant_field fen) (\<lambda>fen.
         step_bind (halfmove_field fen) (\<lambda>fen.
         step_bind (fullmove_field fen) (\<lambda>(c, fen).
           if c \<noteq> NUL then Return False else Return True))))))"

definition validate_fen :: "config \<Rightarrow> char list \<Rightarrow> bool option" where
  "validate_fen cfg fen =
     (case validate_fen_steps cfg fen of
        OutOfBounds \<Rightarrow> None
      | Return b \<Rightarrow> Some b
      | Continue b \<Rightarrow> Some b)"

text \<open>The board field of a position text: everything before its first space.\<close>

definition board_field :: "string \<Rightarrow> string" where
  "board_field s = takeWhile (\<lambda>c. c \<noteq> CHR '' '') s"

definition regular_chess :: config where
  "regular_chess = \<lparr>ATOMIC = False, GAVIOTA = True, TABLEBASE_VARIANT = CHESS_VARIANT, MaxCardinality = 6\<rparr>"

definition atomic_chess :: config where
  "atomic_chess = \<lparr>ATOMIC = True, GAVIOTA = False, TABLEBASE_VARIANT = ATOMIC_VARIANT, MaxCardinality = 6\<rparr>"


section \<open>Move records and their ranking\<close>

text \<open>
  \<^verbatim>\<open>struct MoveInfo\<close>. The \<^verbatim>\<open>int\<close> fields hold a category in \<open>-2..2\<close> and tablebase distances;
  they are mathematical integers here.
\<close>

record MoveInfo =
  uci :: string
  san :: string
  insufficient_material :: bool
  checkmate :: bool
  stalemate :: bool
  zeroing :: bool
  has_wdl :: bool
  wdl :: int
  has_dtz :: bool
  dtz :: int
  has_dtm :: bool
  dtm :: int

text \<open>
  \<^verbatim>\<open>bool compare_move_info(const MoveInfo &a, const MoveInfo &b)\<close>, the comparator handed to
  \<^verbatim>\<open>std::sort\<close>: \<open>compare_move_info a b\<close> says that \<open>a\<close> goes before \<open>b\<close>.
  \<^verbatim>\<open>a.uci.compare(b.uci) < 0\<close> is the lexicographic order on bytes, in which a proper prefix
  is smaller; that is the order of \<^verbatim>\<open>HOL-Library.List_Lexorder\<close> on \<^typ>\<open>string\<close>.
\<close>

definition compare_move_info :: "MoveInfo \<Rightarrow> MoveInfo \<Rightarrow> bool" where
  "compare_move_info a b =
     (if has_dtz a \<noteq> has_dtz b then has_dtz b
      else if has_wdl a \<noteq> has_wdl b then has_wdl b
      else if has_wdl a \<and> has_wdl b \<and> wdl a \<noteq> wdl b then wdl a < wdl b
      else if checkmate a \<noteq> checkmate b then checkmate a
      else if stalemate a \<noteq> stalemate b then stalemate a
      else if insufficient_material a \<noteq> insufficient_material b then insufficient_material a
      else if has_dtm a \<and> has_dtm b \<and> dtm b \<noteq> dtm a then dtm b < dtm a
      else if has_wdl a \<and> has_wdl b \<and> wdl a < 0 \<and> zeroing b \<noteq> zeroing a then zeroing a
      else if has_wdl a \<and> has_wdl b \<and> wdl a > 0 \<and> zeroing a \<noteq> zeroing b then zeroing b
      else if has_dtz a \<and> has_dtz b \<and> dtz a \<noteq> dtz b then dtz b < dtz a
      else uci a < uci b)"

section \<open>The external collaborators\<close>

text \<open>
  The chess engine, the two tablebase libraries, the HTTP library and \<^verbatim>\<open>std::sort\<close> are not
  code of the server. Each call the server makes is a field of the environment: a position
  is a value of type \<open>'pos\<close>, \<^verbatim>\<open>pos.do_move(m, st)\<close> returns the position after the move, and
  \<^verbatim>\<open>pos.undo_move(m)\<close> goes back to the position before it. A bitboard is a 64-bit word, a
  square a number below 64; the engine's constant \<^verbatim>\<open>DarkSquares\<close> is a field too, and its
  \<^verbatim>\<open>popcount\<close> is the number of bits set. The rendering \<^verbatim>\<open>move_san\<close> and the log lines written to the
  standard output take part in no property below; the first is taken from the environment,
  the second left out.
\<close>

datatype Color = WHITE | BLACK

datatype PieceType = PAWN | KNIGHT | BISHOP | ROOK | QUEEN | KING

datatype ProbeState = FAIL | OK | CHANGE_STM | ZEROING_BEST_MOVE

datatype tb_info = tb_DRAW | tb_WMATE | tb_BMATE | tb_FORBID | tb_UNKNOWN | tb_other_code

record ('q, 'pos, 'move) env =
  cors :: bool
  evhttp_parse_query :: "string \<Rightarrow> 'q option"
  evhttp_find_header :: "'q \<Rightarrow> string \<Rightarrow> string option"
  evbuffer_new_ok :: bool
  pos_set :: "string \<Rightarrow> 'pos"
  pos_is_ok :: "'pos \<Rightarrow> bool"
  legal_moves :: "'pos \<Rightarrow> 'move list"
  do_move :: "'pos \<Rightarrow> 'move \<Rightarrow> 'pos"
  checkers :: "'pos \<Rightarrow> bool"
  is_atomic_loss :: "'pos \<Rightarrow> bool"
  rule50_count :: "'pos \<Rightarrow> int"
  can_castle :: "'pos \<Rightarrow> bool"
  pieces :: "'pos \<Rightarrow> 64 word"
  pieces_of_type :: "'pos \<Rightarrow> PieceType \<Rightarrow> 64 word"
  pieces_of_color :: "'pos \<Rightarrow> Color \<Rightarrow> 64 word"
  piece_on :: "'pos \<Rightarrow> nat \<Rightarrow> (Color \<times> PieceType) option"
  side_to_move :: "'pos \<Rightarrow> Color"
  ep_square :: "'pos \<Rightarrow> nat option"
  DarkSquares :: "64 word"
  probe_dtz :: "'pos \<Rightarrow> int \<times> ProbeState"
  tb_probe_hard :: "Color \<Rightarrow> nat option \<Rightarrow> (nat \<times> PieceType) list \<Rightarrow> (nat \<times> PieceType) list
                      \<Rightarrow> 32 word \<times> tb_info \<times> 32 word"
  uci_move :: "'move \<Rightarrow> string"
  move_san :: "'pos \<Rightarrow> 'move \<Rightarrow> 'move list \<Rightarrow> string"
  std_sort :: "(MoveInfo \<Rightarrow> MoveInfo \<Rightarrow> bool) \<Rightarrow> MoveInfo list \<Rightarrow> MoveInfo list"

text \<open>
  A run of the server's code ends with a value, in \<^verbatim>\<open>abort()\<close>, or in a read behind a buffer.
\<close>

datatype 'a run = Aborted | Undefined | Done 'a

section \<open>The move evaluator\<close>

definition popcount :: "64 word \<Rightarrow> nat" where
  "popcount b = length (filter (bit b) [0..<64])"

text \<open>
  \<^verbatim>\<open>template<Variant> bool insufficient_material(const Position &pos)\<close> and its specialisation
  for \<^verbatim>\<open>CHESS_VARIANT\<close>.
\<close>

definition insufficient_material_pos :: "Variant \<Rightarrow> ('q, 'pos, 'move) env \<Rightarrow> 'pos \<Rightarrow> bool" where
  "insufficient_material_pos v E pos =
     (if v = CHESS_VARIANT then
        (if pieces_of_type E pos PAWN \<noteq> 0 \<or> pieces_of_type E pos ROOK \<noteq> 0
            \<or> pieces_of_type E pos QUEEN \<noteq> 0 then False
         else if popcount (pieces_of_type E pos KNIGHT OR pieces_of_type E pos BISHOP) = 1 then True
         else if pieces_of_type E pos KNIGHT \<noteq> 0 then False
         else if pieces_of_type E pos BISHOP AND DarkSquares E = 0 then True
         else if pieces_of_type E pos BISHOP AND NOT (DarkSquares E) = 0 then True
         else False)
      else popcount (pieces E pos) \<le> 2)"

text \<open>
  The two loops of \<^verbatim>\<open>probe_dtm\<close> that list the squares and pieces of one colour, lowest square
  first (\<^verbatim>\<open>pop_lsb\<close>); a square of the colour's bitboard that holds no piece of the colour
  ends in \<^verbatim>\<open>abort()\<close>, which is \<open>None\<close>. The arrays of the source have 17 entries and the
  loops run only for positions of at most five pieces.
\<close>

fun piece_list :: "Color \<Rightarrow> (nat \<Rightarrow> (Color \<times> PieceType) option) \<Rightarrow> nat list \<Rightarrow> (nat \<times> PieceType) list option" where
  "piece_list c on [] = Some []"
| "piece_list c on (sq # sqs) =
     (case on sq of
        None \<Rightarrow> None
      | Some (c', pt) \<Rightarrow>
          if c' \<noteq> c then None
          else (case piece_list c on sqs of None \<Rightarrow> None | Some l \<Rightarrow> Some ((sq, pt) # l)))"

text \<open>
  \<^verbatim>\<open>int probe_dtm(const Position &pos, bool *success)\<close>, compiled under \<^verbatim>\<open>GAVIOTA\<close>. The result
  is the pair of \<^verbatim>\<open>*success\<close> and the value returned. \<^verbatim>\<open>plies_to_mate\<close> is \<^verbatim>\<open>unsigned\<close>, so
  \<^verbatim>\<open>-plies_to_mate\<close> is negation modulo \<open>2^32\<close>, and the \<^verbatim>\<open>return\<close> converts to \<^verbatim>\<open>int\<close>.
\<close>

definition probe_dtm :: "config \<Rightarrow> ('q, 'pos, 'move) env \<Rightarrow> 'pos \<Rightarrow> (bool \<times> int) run" where
  "probe_dtm cfg E pos =
     (if insufficient_material_pos (TABLEBASE_VARIANT cfg) E pos then Done (False, 0)
      else if popcount (pieces E pos) > 5 then Done (False, 0)
      else if can_castle E pos then Done (False, 0)
      else
        (case piece_list WHITE (piece_on E pos) (filter (bit (pieces_of_color E pos WHITE)) [0..<64]) of
           None \<Rightarrow> Aborted
         | Some w \<Rightarrow>
        (case piece_list BLACK (piece_on E pos) (filter (bit (pieces_of_color E pos BLACK)) [0..<64]) of
           None \<Rightarrow> Aborted
         | Some b \<Rightarrow>
        (case tb_probe_hard E (side_to_move E pos) (ep_square E pos) w b of
           (available, info, plies_to_mate) \<Rightarrow>
             if available = 0 \<or> info = tb_FORBID \<or> info = tb_UNKNOWN then Done (False, 0)
             else if info = tb_DRAW then Done (False, 0)
             else if info = tb_WMATE \<and> side_to_move E pos = WHITE then Done (True, sint plies_to_mate)
             else if info = tb_BMATE \<and> side_to_move E pos = BLACK then Done (True, sint plies_to_mate)
             else if info = tb_WMATE \<and> side_to_move E pos = BLACK then Done (True, sint (- plies_to_mate))
             else if info = tb_BMATE \<and> side_to_move E pos = WHITE then Done (True, sint (- plies_to_mate))
             else Aborted))))"

text \<open>\<^verbatim>\<open>MoveInfo info = {}\<close>: every field zero.\<close>

definition MoveInfo_zero :: MoveInfo where
  "MoveInfo_zero =
     \<lparr>uci = [], san = [], insufficient_material = False, checkmate = False, stalemate = False,
      zeroing = False, has_wdl = False, wdl = 0, has_dtz = False, dtz = 0, has_dtm = False, dtm = 0\<rparr>"

text \<open>
  The body of the loop \<^verbatim>\<open>for (const auto& m : legals)\<close> of \<^verbatim>\<open>get_api\<close>, in its two halves.
  The first half, \<open>move_flags\<close>, runs from \<^verbatim>\<open>MoveInfo info = {}\<close> to the suffix of the
  \<^verbatim>\<open>san\<close>. The parameter \<open>checkmate_of_query\<close> is the local variable \<^verbatim>\<open>checkmate\<close> of \<^verbatim>\<open>get_api\<close>,
  set before the loop for the position of the query; the source reads it in the line that
  sets \<^verbatim>\<open>info.stalemate\<close>.
\<close>

definition move_flags ::
  "config \<Rightarrow> ('q, 'pos, 'move) env \<Rightarrow> 'pos \<Rightarrow> 'move list \<Rightarrow> bool \<Rightarrow> 'move \<Rightarrow> MoveInfo" where
  "move_flags cfg E pos legals checkmate_of_query m =
     (let info = MoveInfo_zero\<lparr>uci := uci_move E m, san := move_san E pos m legals\<rparr>;
          pos' = do_move E pos m;
          num_moves = int (length (legal_moves E pos'));
          info = info\<lparr>checkmate :=
                   (if ATOMIC cfg then num_moves = 0 \<and> (checkers E pos' \<or> is_atomic_loss E pos')
                    else num_moves = 0 \<and> checkers E pos')\<rparr>;
          info = info\<lparr>stalemate := (num_moves = 0 \<and> \<not> checkmate_of_query)\<rparr>;
          info = info\<lparr>insufficient_material := insufficient_material_pos (TABLEBASE_VARIANT cfg) E pos'\<rparr>;
          info = info\<lparr>zeroing := (rule50_count E pos' = 0)\<rparr>
      in info\<lparr>san := (if checkmate info then san info @ ''#''
                       else if checkers E pos' then san info @ ''+''
                       else san info)\<rparr>)"

text \<open>
  The second half, \<open>move_outcome\<close>, is the chain \<^verbatim>\<open>if (info.checkmate) ... else ...\<close> on the
  position after the move. \<^verbatim>\<open>info.dtz - pos.rule50_count()\<close> and \<^verbatim>\<open>info.dtz + pos.rule50_count()\<close>
  are operations on \<^verbatim>\<open>int\<close>, and the halfmove clock comes from the text of the request, so
  they can leave the range of an \<^verbatim>\<open>int\<close>. The model takes the result in 32-bit two's
  complement, \<open>int32\<close> of the mathematical result, which is what the compiled comparison
  sees; the two agree whenever the mathematical result fits.
\<close>

definition int32 :: "int \<Rightarrow> int" where
  "int32 x = sint (word_of_int x :: 32 word)"

definition move_outcome ::
  "config \<Rightarrow> ('q, 'pos, 'move) env \<Rightarrow> 'pos \<Rightarrow> MoveInfo \<Rightarrow> MoveInfo run" where
  "move_outcome cfg E pos' info =
     (if checkmate info then
        Done (info\<lparr>has_wdl := True, wdl := - 2, has_dtm := True, dtm := 0\<rparr>)
      else if stalemate info \<or> insufficient_material info then
        Done (info\<lparr>has_wdl := True, wdl := 0\<rparr>)
      else if \<not> can_castle E pos' \<and> int (popcount (pieces E pos')) \<le> MaxCardinality cfg then
        (case probe_dtz E pos' of
           (d, state) \<Rightarrow>
             let info = info\<lparr>dtz := d\<rparr>;
                 info = info\<lparr>has_dtz := (state \<noteq> FAIL)\<rparr>
             in
               if \<not> has_dtz info then Done info
               else
                 let info = info\<lparr>has_wdl := True\<rparr>;
                     info = info\<lparr>wdl :=
                              (if dtz info < - 100 \<and> int32 (dtz info - rule50_count E pos') \<le> - 100 then - 1
                               else if dtz info > 100 \<and> int32 (dtz info + rule50_count E pos') \<ge> - 100 then 1
                               else if dtz info < 0 then - 2
                               else if dtz info > 0 then 2
                               else 0)\<rparr>
                 in
                   if GAVIOTA cfg then
                     (case probe_dtm cfg E pos' of
                        Aborted \<Rightarrow> Aborted
                      | Undefined \<Rightarrow> Undefined
                      | Done (success, v) \<Rightarrow> Done (info\<lparr>has_dtm := success, dtm := v\<rparr>))
                   else Done info)
      else Done (info\<lparr>has_wdl := False\<rparr>))"

definition move_info ::
  "config \<Rightarrow> ('q, 'pos, 'move) env \<Rightarrow> 'pos \<Rightarrow> 'move list \<Rightarrow> bool \<Rightarrow> 'move \<Rightarrow> MoveInfo run" where
  "move_info cfg E pos legals checkmate_of_query m =
     move_outcome cfg E (do_move E pos m) (move_flags cfg E pos legals checkmate_of_query m)"

fun move_infos ::
  "config \<Rightarrow> ('q, 'pos, 'move) env \<Rightarrow> 'pos \<Rightarrow> 'move list \<Rightarrow> bool \<Rightarrow> 'move list \<Rightarrow> MoveInfo list run" where
  "move_infos cfg E pos legals checkmate_of_query [] = Done []"
| "move_infos cfg E pos legals checkmate_of_query (m # ms) =
     (case move_info cfg E pos legals checkmate_of_query m of
        Aborted \<Rightarrow> Aborted
      | Undefined \<Rightarrow> Undefined
      | Done info \<Rightarrow>
          (case move_infos cfg E pos legals checkmate_of_query ms of
             Aborted \<Rightarrow> Aborted
           | Undefined \<Rightarrow> Undefined
           | Done infos \<Rightarrow> Done (info # infos)))"

section \<open>The query resolver\<close>

text \<open>
  \<^verbatim>\<open>void get_api(struct evhttp_request *req, void *)\<close>. The request is the result of
  \<^verbatim>\<open>evhttp_request_get_uri\<close>. The reply is the error sent, or the data from which the body
  is printed: the callback when one wraps the body, the two flags of the position of the
  query and the sorted records. Beside the outcome of the run, the model returns the texts
  given to \<^verbatim>\<open>pos.set\<close>, the parser of the engine, in the order of the calls.
\<close>

record QueryResult =
  callback :: "string option"
  query_checkmate :: bool
  query_stalemate :: bool
  moves :: "MoveInfo list"

datatype reply = No_Reply | Send_Error nat string | Send_Reply nat string QueryResult

record response =
  headers :: "(string \<times> string) list"
  sent :: reply

definition get_api ::
  "config \<Rightarrow> ('q, 'pos, 'move) env \<Rightarrow> string option \<Rightarrow> string list \<times> response run" where
  "get_api cfg E uri =
     (case uri of
        None \<Rightarrow> ([], Done \<lparr>headers = [], sent = No_Reply\<rparr>)
      | Some u \<Rightarrow>
          let hs = (if cors E then [(''Access-Control-Allow-Origin'', ''*'')] else []);
              (c_fen, jsonp) =
                (case evhttp_parse_query E u of
                   None \<Rightarrow> (None, None)
                 | Some query \<Rightarrow> (evhttp_find_header E query ''fen'', evhttp_find_header E query ''callback''))
          in
            (case c_fen of
               None \<Rightarrow> ([], Done \<lparr>headers = hs, sent = Send_Error 400 ''Missing FEN''\<rparr>)
             | Some f \<Rightarrow>
                 if length f = 0 then ([], Done \<lparr>headers = hs, sent = Send_Error 400 ''Missing FEN''\<rparr>)
                 else
                   let fen = map (\<lambda>c. if c = CHR ''_'' then CHR '' '' else c) f in
                   (case validate_fen cfg (c_str fen) of
                      None \<Rightarrow> ([], Undefined)
                    | Some valid \<Rightarrow>
                        if \<not> valid then ([], Done \<lparr>headers = hs, sent = Send_Error 400 ''Invalid FEN''\<rparr>)
                        else
                          let pos = pos_set E fen in
                          if \<not> pos_is_ok E pos then
                            ([fen], Done \<lparr>headers = hs, sent = Send_Error 400 ''Illegal FEN''\<rparr>)
                          else
                            let wrap = (case jsonp of None \<Rightarrow> False | Some j \<Rightarrow> length j \<noteq> 0);
                                hs = hs @ [(''Content-Type'',
                                            if wrap then ''application/javascript'' else ''application/json'')]
                            in
                              if \<not> evbuffer_new_ok E then ([fen], Aborted)
                              else
                                let legals = legal_moves E pos;
                                    checkmate_of_query =
                                      (if ATOMIC cfg
                                       then length legals = 0 \<and> (checkers E pos \<or> is_atomic_loss E pos)
                                       else length legals = 0 \<and> checkers E pos)
                                in
                                  (case move_infos cfg E pos legals checkmate_of_query legals of
                                     Aborted \<Rightarrow> ([fen], Aborted)
                                   | Undefined \<Rightarrow> ([fen], Undefined)
                                   | Done move_infos_list \<Rightarrow>
                                       ([fen], Done
                                         \<lparr>headers = hs,
                                          sent = Send_Reply 200 ''OK''
                                            \<lparr>callback = (if wrap then jsonp else None),
                                             query_checkmate = checkmate_of_query,
                                             query_stalemate = (length legals = 0 \<and> \<not> checkmate_of_query),
                                             moves = std_sort E compare_move_info move_infos_list\<rparr>\<rparr>)))))"

section \<open>Vocabulary of the statements\<close>

text \<open>
  The side that made the move is the side that is not to move in the position after it.
  \<open>gaviota_answer\<close> is what \<^verbatim>\<open>tb_probe_hard\<close> returns for the arguments that \<^verbatim>\<open>probe_dtm\<close> builds
  from a position, and \<open>mating_side\<close> reads the colour out of its code.
\<close>

text \<open>
  For the statements about the validator: \<open>remaining_fields\<close> is the scan of the fields 2
  to 6 as \<open>validate_fen_steps\<close> runs it after the check of the kings, and \<open>returned\<close> reads
  the result of a scan as \<open>validate_fen\<close> does.
\<close>

definition remaining_fields :: "char list \<Rightarrow> bool step" where
  "remaining_fields fen =
     step_bind (turn_field fen) (\<lambda>fen.
     step_bind (castling_field fen) (\<lambda>fen.
     step_bind (en_passant_field fen) (\<lambda>fen.
     step_bind (halfmove_field fen) (\<lambda>fen.
     step_bind (fullmove_field fen) (\<lambda>(c, fen).
       if c \<noteq> NUL then Return False else Return True)))))"

definition returned :: "bool step \<Rightarrow> bool option" where
  "returned r = (case r of OutOfBounds \<Rightarrow> None | Return b \<Rightarrow> Some b | Continue b \<Rightarrow> Some b)"




section \<open>An environment read from a table\<close>

text \<open>
  For statements at concrete inputs the collaborators answer from a table: a position is a
  number, position \<open>0\<close> is the one the parser returns, a move is the number of the
  position it leads to, and the table holds for each position what the engine and the
  Syzygy backend would say about it. Squares count from \<open>a1 = 0\<close> along the ranks to
  \<open>h8 = 63\<close>. The answers of the Gaviota backend are a second table, from the arguments of
  \<^verbatim>\<open>tb_probe_hard\<close>. \<^verbatim>\<open>std::sort\<close> is an insertion sort.
\<close>

record facts =
  f_uci :: string
  f_san :: string
  f_legal :: "nat list"
  f_checkers :: bool
  f_atomic_loss :: bool
  f_rule50 :: int
  f_can_castle :: bool
  f_white :: "(nat \<times> PieceType) list"
  f_black :: "(nat \<times> PieceType) list"
  f_side_to_move :: Color
  f_ep :: "nat option"
  f_dtz :: "int \<times> ProbeState"

type_synonym gaviota_table =
  "((Color \<times> (nat \<times> PieceType) list \<times> (nat \<times> PieceType) list) \<times> (32 word \<times> tb_info \<times> 32 word)) list"

definition bitboard :: "nat list \<Rightarrow> 64 word" where
  "bitboard sqs = foldr (\<lambda>sq b. push_bit sq 1 OR b) sqs 0"

fun insert_sorted :: "('a \<Rightarrow> 'a \<Rightarrow> bool) \<Rightarrow> 'a \<Rightarrow> 'a list \<Rightarrow> 'a list" where
  "insert_sorted lt x [] = [x]"
| "insert_sorted lt x (y # ys) = (if lt x y then x # y # ys else y # insert_sorted lt x ys)"

definition insertion_sort :: "('a \<Rightarrow> 'a \<Rightarrow> bool) \<Rightarrow> 'a list \<Rightarrow> 'a list" where
  "insertion_sort lt xs = foldr (insert_sorted lt) xs []"

definition table_env :: "(nat \<Rightarrow> facts) \<Rightarrow> gaviota_table \<Rightarrow> (string, nat, nat) env" where
  "table_env T G =
     \<lparr>cors = False,
      evhttp_parse_query = (\<lambda>u. Some u),
      evhttp_find_header = (\<lambda>q k. if k = ''fen'' then Some q else None),
      evbuffer_new_ok = True,
      pos_set = (\<lambda>fen. 0),
      pos_is_ok = (\<lambda>p. True),
      legal_moves = (\<lambda>p. f_legal (T p)),
      do_move = (\<lambda>p m. m),
      checkers = (\<lambda>p. f_checkers (T p)),
      is_atomic_loss = (\<lambda>p. f_atomic_loss (T p)),
      rule50_count = (\<lambda>p. f_rule50 (T p)),
      can_castle = (\<lambda>p. f_can_castle (T p)),
      pieces = (\<lambda>p. bitboard (map fst (f_white (T p) @ f_black (T p)))),
      pieces_of_type = (\<lambda>p pt. bitboard (map fst (filter (\<lambda>x. snd x = pt) (f_white (T p) @ f_black (T p))))),
      pieces_of_color = (\<lambda>p c. bitboard (map fst (if c = WHITE then f_white (T p) else f_black (T p)))),
      piece_on = (\<lambda>p sq. case map_of (f_white (T p)) sq of
                            Some pt \<Rightarrow> Some (WHITE, pt)
                          | None \<Rightarrow> (case map_of (f_black (T p)) sq of
                                       Some pt \<Rightarrow> Some (BLACK, pt)
                                     | None \<Rightarrow> None)),
      side_to_move = (\<lambda>p. f_side_to_move (T p)),
      ep_square = (\<lambda>p. f_ep (T p)),
      DarkSquares = 0xAA55AA55AA55AA55,
      probe_dtz = (\<lambda>p. f_dtz (T p)),
      tb_probe_hard = (\<lambda>stm ep w b. case map_of G (stm, w, b) of
                                        Some answer \<Rightarrow> answer
                                      | None \<Rightarrow> (0, tb_UNKNOWN, 0)),
      uci_move = (\<lambda>m. f_uci (T m)),
      move_san = (\<lambda>p m ms. f_san (T m)),
      std_sort = insertion_sort\<rparr>"

text \<open>A position with two kings, no check and no tablebase answer; the tables below change it.\<close>

definition quiet :: facts where
  "quiet =
     \<lparr>f_uci = [], f_san = [], f_legal = [0], f_checkers = False, f_atomic_loss = False, f_rule50 = 1,
      f_can_castle = False, f_white = [(4, KING)], f_black = [(60, KING)], f_side_to_move = WHITE,
      f_ep = None, f_dtz = (0, FAIL)\<rparr>"

text \<open>
  The example of the README: \<^verbatim>\<open>8/6B1/8/8/B7/8/K1pk4/8 b - - 0 1\<close> and its reply \<^verbatim>\<open>c2c1n\<close>, after
  which White is to move, in check, with DTZ 109 and a mate in 133 plies for White.
\<close>

definition readme_table :: "nat \<Rightarrow> facts" where
  "readme_table p =
     (if p = 0 then
        quiet\<lparr>f_legal := [1], f_rule50 := 0, f_white := [(8, KING), (24, BISHOP), (54, BISHOP)],
              f_black := [(10, PAWN), (11, KING)], f_side_to_move := BLACK\<rparr>
      else if p = 1 then
        quiet\<lparr>f_uci := ''c2c1n'', f_san := ''c1=N'', f_legal := [2, 3, 4, 5], f_checkers := True,
              f_rule50 := 0, f_white := [(8, KING), (24, BISHOP), (54, BISHOP)],
              f_black := [(2, KNIGHT), (11, KING)], f_side_to_move := WHITE,
              f_dtz := (109, OK)\<rparr>
      else quiet)"

definition readme_gaviota :: gaviota_table where
  "readme_gaviota =
     [((WHITE, [(8, KING), (24, BISHOP), (54, BISHOP)], [(2, KNIGHT), (11, KING)]), (1, tb_WMATE, 133))]"

text \<open>\<^verbatim>\<open>7k/5Q2/6K1/8/8/8/8/8 w - - 0 1\<close> and its reply \<^verbatim>\<open>f7g7\<close>, which mates.\<close>

definition mate_table :: "nat \<Rightarrow> facts" where
  "mate_table p =
     (if p = 0 then
        quiet\<lparr>f_legal := [1], f_rule50 := 0, f_white := [(46, KING), (53, QUEEN)],
              f_black := [(63, KING)], f_side_to_move := WHITE\<rparr>
      else if p = 1 then
        quiet\<lparr>f_uci := ''f7g7'', f_san := ''Qg7'', f_legal := [], f_checkers := True,
              f_rule50 := 1, f_white := [(46, KING), (54, QUEEN)],
              f_black := [(63, KING)], f_side_to_move := BLACK\<rparr>
      else quiet)"

text \<open>
  A position of six pieces, \<^verbatim>\<open>4k2r/8/1p6/8/3Q4/8/4P3/6K1 w - - 4 1\<close>, with three winning replies:
  two captures that leave five pieces, for which the Gaviota backend has an answer, and a
  pawn move that leaves six, for which it has none. \<open>cycle_a\<close>, \<open>cycle_b\<close> and \<open>cycle_c\<close> are
  the records of the three replies.
\<close>

definition cycle_table :: "nat \<Rightarrow> facts" where
  "cycle_table p =
     (if p = 0 then
        quiet\<lparr>f_legal := [1, 2, 3], f_rule50 := 4, f_white := [(6, KING), (12, PAWN), (27, QUEEN)],
              f_black := [(41, PAWN), (60, KING), (63, ROOK)], f_side_to_move := WHITE\<rparr>
      else if p = 1 then
        quiet\<lparr>f_uci := ''d4h8'', f_san := ''Qxh8'', f_legal := [0], f_checkers := True, f_rule50 := 0,
              f_white := [(6, KING), (12, PAWN), (63, QUEEN)],
              f_black := [(41, PAWN), (60, KING)], f_side_to_move := BLACK, f_dtz := (- 7, OK)\<rparr>
      else if p = 2 then
        quiet\<lparr>f_uci := ''e2e4'', f_san := ''e4'', f_legal := [0], f_rule50 := 0,
              f_white := [(6, KING), (27, QUEEN), (28, PAWN)],
              f_black := [(41, PAWN), (60, KING), (63, ROOK)], f_side_to_move := BLACK, f_dtz := (- 5, OK)\<rparr>
      else if p = 3 then
        quiet\<lparr>f_uci := ''d4b6'', f_san := ''Qxb6'', f_legal := [0], f_rule50 := 0,
              f_white := [(6, KING), (12, PAWN), (41, QUEEN)],
              f_black := [(60, KING), (63, ROOK)], f_side_to_move := BLACK, f_dtz := (- 3, OK)\<rparr>
      else quiet)"

definition cycle_gaviota :: gaviota_table where
  "cycle_gaviota =
     [((BLACK, [(6, KING), (12, PAWN), (63, QUEEN)], [(41, PAWN), (60, KING)]), (1, tb_WMATE, 9)),
      ((BLACK, [(6, KING), (12, PAWN), (41, QUEEN)], [(60, KING), (63, ROOK)]), (1, tb_WMATE, 20))]"

definition cycle_a :: MoveInfo where
  "cycle_a =
     \<lparr>uci = ''d4h8'', san = ''Qxh8+'', insufficient_material = False, checkmate = False, stalemate = False,
      zeroing = True, has_wdl = True, wdl = - 2, has_dtz = True, dtz = - 7, has_dtm = True, dtm = - 9\<rparr>"

definition cycle_b :: MoveInfo where
  "cycle_b =
     \<lparr>uci = ''e2e4'', san = ''e4'', insufficient_material = False, checkmate = False, stalemate = False,
      zeroing = True, has_wdl = True, wdl = - 2, has_dtz = True, dtz = - 5, has_dtm = False, dtm = 0\<rparr>"

definition cycle_c :: MoveInfo where
  "cycle_c =
     \<lparr>uci = ''d4b6'', san = ''Qxb6'', insufficient_material = False, checkmate = False, stalemate = False,
      zeroing = True, has_wdl = True, wdl = - 2, has_dtz = True, dtz = - 3, has_dtm = True, dtm = - 20\<rparr>"

text \<open>
  A position whose halfmove clock is \<open>2147483600\<close>, which the validator accepts and an \<^verbatim>\<open>int\<close>
  holds, and a reply that is neither a capture nor a pawn move, so that the clock is
  \<open>2147483601\<close> after it; the Syzygy backend answers \<^verbatim>\<open>dtz = -101\<close> there.
\<close>

definition overflow_table :: "nat \<Rightarrow> facts" where
  "overflow_table p =
     (if p = 0 then
        quiet\<lparr>f_legal := [1], f_rule50 := 2147483600, f_white := [(1, KNIGHT), (4, KING), (6, KNIGHT)],
              f_black := [(48, PAWN), (60, KING)], f_side_to_move := BLACK\<rparr>
      else if p = 1 then
        quiet\<lparr>f_uci := ''e8d8'', f_san := ''Kd8'', f_legal := [0], f_rule50 := 2147483601,
              f_white := [(1, KNIGHT), (4, KING), (6, KNIGHT)],
              f_black := [(48, PAWN), (59, KING)], f_side_to_move := WHITE, f_dtz := (- 101, OK)\<rparr>
      else quiet)"

definition overflow_record :: MoveInfo where
  "overflow_record =
     \<lparr>uci = ''e8d8'', san = ''Kd8'', insufficient_material = False, checkmate = False, stalemate = False,
      zeroing = False, has_wdl = True, wdl = - 2, has_dtz = True, dtz = - 101, has_dtm = False, dtm = 0\<rparr>"

text \<open>Records for the examples of the ranking.\<close>

definition probed_win :: MoveInfo where
  "probed_win = MoveInfo_zero\<lparr>uci := ''a2a3'', has_wdl := True, wdl := - 2, has_dtz := True, dtz := - 4\<rparr>"

definition failed_probe :: MoveInfo where
  "failed_probe = MoveInfo_zero\<lparr>uci := ''b2b3''\<rparr>"

definition stalemating :: MoveInfo where
  "stalemating = MoveInfo_zero\<lparr>uci := ''c2c3'', stalemate := True, has_wdl := True, wdl := 0\<rparr>"

definition zeroing_win :: MoveInfo where
  "zeroing_win = MoveInfo_zero\<lparr>uci := ''a2a3'', zeroing := True, has_wdl := True, wdl := - 2,
                               has_dtz := True, dtz := - 4\<rparr>"

definition quiet_win :: MoveInfo where
  "quiet_win = MoveInfo_zero\<lparr>uci := ''a1b1'', zeroing := False, has_wdl := True, wdl := - 2,
                             has_dtz := True, dtz := - 4\<rparr>"

definition zeroing_loss :: MoveInfo where
  "zeroing_loss = MoveInfo_zero\<lparr>uci := ''a2a3'', zeroing := True, has_wdl := True, wdl := 2,
                                has_dtz := True, dtz := 4\<rparr>"

definition quiet_loss :: MoveInfo where
  "quiet_loss = MoveInfo_zero\<lparr>uci := ''a1b1'', zeroing := False, has_wdl := True, wdl := 2,
                              has_dtz := True, dtz := 4\<rparr>"

definition readme_record :: MoveInfo where
  "readme_record =
     \<lparr>uci = ''c2c1n'', san = ''c1=N+'', insufficient_material = False, checkmate = False, stalemate = False,
      zeroing = True, has_wdl = True, wdl = 1, has_dtz = True, dtz = 109, has_dtm = True, dtm = 133\<rparr>"

section \<open>Properties of the validator\<close>

declare board_ranks.simps [simp del]

lemmas validate_fen_defs =
  validate_fen_def validate_fen_steps_def step_bind_def turn_field_def castling_field_def
  en_passant_field_def halfmove_field_def fullmove_field_def NUL_def c_str_def validate_kings_def
  board_ranks.simps

lemma rank_files_Continue:
  "rank_files fl l wk bk fen = Continue (fl', wk', bk', rest) \<Longrightarrow>
   \<exists>pre. fen = pre @ rest \<and> CHR '' '' \<notin> set pre
        \<and> wk' = wk + int (count_list pre (CHR ''K''))
        \<and> bk' = bk + int (count_list pre (CHR ''k''))"
proof (induction fl l wk bk fen rule: rank_files.induct)
  case (1 fl last_was_number wk bk)
  then show ?case by (simp split: if_splits)
next
  case (2 fl last_was_number wk bk c fen)
  show ?case
  proof (cases "fl \<le> 7")
    case False
    with "2.prems" show ?thesis by simp
  next
    case True
    note IH = "2.IH"[OF True]
    from True "2.prems" have c: "c \<noteq> CHR '' ''"
      by (auto split: if_splits)
    have "\<exists>pre. fen = pre @ rest \<and> CHR '' '' \<notin> set pre \<and>
      wk' = (if c = CHR ''K'' then wk + 1 else wk) + int (count_list pre (CHR ''K'')) \<and>
      bk' = (if c = CHR ''k'' then bk + 1 else bk) + int (count_list pre (CHR ''k''))"
    proof (cases "CHR ''1'' \<le> c \<and> c \<le> CHR ''8''")
      case d: True
      with True "2.prems" have nl: "\<not> last_was_number" 
        and r: "rank_files (fl + (of_char c - of_char (CHR ''1'')) + 1) True wk bk fen = Continue (fl', wk', bk', rest)"
        by (simp_all split: if_splits)
      from d have "c \<noteq> CHR ''K''" "c \<noteq> CHR ''k''" by auto
      with IH(1)[OF d nl r] show ?thesis by simp
    next
      case nd: False
      show ?thesis
      proof (cases "c = CHR ''k''")
        case k: True
        with True nd "2.prems" have
          r: "rank_files (fl + 1) False wk (bk + 1) fen = Continue (fl', wk', bk', rest)"
          by simp
        from IH(2)[OF nd k r] k show ?thesis by simp
      next
        case nk: False
        show ?thesis
        proof (cases "c = CHR ''K''")
          case K: True
          with True nd nk "2.prems" have
            r: "rank_files (fl + 1) False (wk + 1) bk fen = Continue (fl', wk', bk', rest)"
            by simp
          from IH(3)[OF nd nk K r] K nk show ?thesis by simp
        next
          case nK: False
          with True nd nk "2.prems" have p: "c \<in> set ''pPnNbBrRqQ''"
            and r: "rank_files (fl + 1) False wk bk fen = Continue (fl', wk', bk', rest)"
            by (simp_all split: if_splits)
          from IH(4)[OF nd nk nK p r] nK nk show ?thesis by simp
        qed
      qed
    qed
    then obtain pre where pre: "fen = pre @ rest" "CHR '' '' \<notin> set pre"
      "wk' = (if c = CHR ''K'' then wk + 1 else wk) + int (count_list pre (CHR ''K''))"
      "bk' = (if c = CHR ''k'' then bk + 1 else bk) + int (count_list pre (CHR ''k''))"
      by blast
    show ?thesis
      by (rule exI[of _ "c # pre"]) (use pre c in auto)
  qed
qed

lemma rank_files_not_True: "rank_files fl l wk bk fen \<noteq> Return True"
  by (induction fl l wk bk fen rule: rank_files.induct) auto

lemma board_ranks_not_True: "board_ranks rank wk bk fen \<noteq> Return True"
proof (induction rank arbitrary: wk bk fen)
  case 0
  show ?case
    using rank_files_not_True[of 0 False wk bk fen]
    by (subst board_ranks.simps) (auto simp: step_bind_def split: step.splits list.splits)
next
  case (Suc rank)
  show ?case
    using rank_files_not_True[of 0 False wk bk fen] Suc.IH
    by (subst board_ranks.simps) (auto simp: step_bind_def split: step.splits list.splits)
qed

lemma board_ranks_rank_files:
  "board_ranks rank wk bk fen = Continue (wk', bk', rest) \<Longrightarrow>
   \<exists>wk1 bk1 c fen2. rank_files 0 False wk bk fen = Continue (8, wk1, bk1, c # fen2) \<and> c \<noteq> NUL
      \<and> (if rank > 0 then c = CHR ''/'' \<and> board_ranks (rank - 1) wk1 bk1 fen2 = Continue (wk', bk', rest)
          else c = CHR '' '' \<and> wk' = wk1 \<and> bk' = bk1 \<and> rest = fen2)"
  by (subst (asm) board_ranks.simps)
     (auto simp: step_bind_def split: step.splits list.splits if_splits)

lemma board_ranks_Continue:
  "board_ranks rank wk bk fen = Continue (wk', bk', rest) \<Longrightarrow>
   \<exists>pre. fen = pre @ CHR '' '' # rest \<and> CHR '' '' \<notin> set pre
        \<and> wk' = wk + int (count_list pre (CHR ''K''))
        \<and> bk' = bk + int (count_list pre (CHR ''k''))"
proof (induction rank arbitrary: wk bk fen)
  case 0
  from board_ranks_rank_files[OF "0.prems"] obtain wk1 bk1 c fen2 where
    rf: "rank_files 0 False wk bk fen = Continue (8, wk1, bk1, c # fen2)"
    and c: "c = CHR '' ''" "wk' = wk1" "bk' = bk1" "rest = fen2"
    by auto
  from rank_files_Continue[OF rf] c show ?case by auto
next
  case (Suc rank)
  from board_ranks_rank_files[OF Suc.prems] obtain wk1 bk1 c fen2 where
    rf: "rank_files 0 False wk bk fen = Continue (8, wk1, bk1, c # fen2)"
    and c: "c = CHR ''/''"
    and rec: "board_ranks rank wk1 bk1 fen2 = Continue (wk', bk', rest)"
    by auto
  from rank_files_Continue[OF rf] obtain p1 where p1: "fen = p1 @ c # fen2" "CHR '' '' \<notin> set p1"
    "wk1 = wk + int (count_list p1 (CHR ''K''))" "bk1 = bk + int (count_list p1 (CHR ''k''))"
    by blast
  from Suc.IH[OF rec]
  obtain p2 where p2: "fen2 = p2 @ CHR '' '' # rest" "CHR '' '' \<notin> set p2"
    "wk' = wk1 + int (count_list p2 (CHR ''K''))" "bk' = bk1 + int (count_list p2 (CHR ''k''))"
    by auto
  show ?case
    by (rule exI[of _ "p1 @ c # p2"]) (use p1 p2 c in auto)
qed

lemma board_field_c_str:
  assumes "c_str s = pre @ CHR '' '' # rest" "CHR '' '' \<notin> set pre"
  shows "board_field s = pre"
proof -
  from assms(1) have "rest \<noteq> []"
    by (auto simp: c_str_def NUL_def dest!: arg_cong[where f = last])
  with assms(1) have "s = pre @ CHR '' '' # butlast rest"
    by (metis butlast_append butlast_snoc c_str_def list.distinct(1) butlast.simps(2))
  moreover from assms(2) have "\<And>x. x \<in> set pre \<Longrightarrow> x \<noteq> CHR '' ''"
    by auto
  ultimately show ?thesis
    by (simp add: board_field_def takeWhile_append2)
qed

lemma board_ranks_kings:
  assumes "board_ranks 7 0 0 (c_str s) = Continue (wk, bk, rest)"
  shows "wk = int (count_list (board_field s) (CHR ''K''))"
    and "bk = int (count_list (board_field s) (CHR ''k''))"
proof -
  from board_ranks_Continue[OF assms] obtain pre where
    pre: "c_str s = pre @ CHR '' '' # rest" "CHR '' '' \<notin> set pre"
      "wk = 0 + int (count_list pre (CHR ''K''))" "bk = 0 + int (count_list pre (CHR ''k''))"
    by blast
  from board_field_c_str[OF pre(1,2)] pre(3,4)
  show "wk = int (count_list (board_field s) (CHR ''K''))"
    and "bk = int (count_list (board_field s) (CHR ''k''))"
    by simp_all
qed

lemma validate_fen_accept_board:
  assumes "validate_fen cfg fen = Some True"
  shows "\<exists>wk bk rest. board_ranks 7 0 0 fen = Continue (wk, bk, rest)
           \<and> validate_kings (ATOMIC cfg) (TABLEBASE_VARIANT cfg) wk bk"
proof (cases "board_ranks 7 0 0 fen")
  case OutOfBounds
  with assms show ?thesis by (simp add: validate_fen_def validate_fen_steps_def step_bind_def)
next
  case (Return b)
  with assms board_ranks_not_True[of 7 0 0 fen] show ?thesis
    by (simp add: validate_fen_def validate_fen_steps_def step_bind_def)
next
  case (Continue x)
  obtain wk bk rest where x: "x = (wk, bk, rest)" by (cases x) auto
  from assms Continue x have "validate_kings (ATOMIC cfg) (TABLEBASE_VARIANT cfg) wk bk"
    by (auto simp: validate_fen_def validate_fen_steps_def step_bind_def split: if_splits)
  with Continue x show ?thesis by simp
qed

lemma validate_fen_reject_kings:
  assumes "board_ranks 7 0 0 fen = Continue (wk, bk, rest)"
    and "\<not> validate_kings (ATOMIC cfg) (TABLEBASE_VARIANT cfg) wk bk"
  shows "validate_fen cfg fen = Some False"
  using assms by (simp add: validate_fen_def validate_fen_steps_def step_bind_def)


text \<open>
  The test in the loop of the halfmove clock can never hold, so the loop rejects nothing,
  and it stops at a space only: with no space left it reads behind the buffer.
\<close>

lemma halfmove_test_dead: "\<not> (c < CHR ''0'' \<and> c > CHR ''9'')"
proof
  assume "c < CHR ''0'' \<and> c > CHR ''9''"
  then have "CHR ''9'' < CHR ''0''" by (metis order.strict_trans)
  then show False by simp
qed

lemma halfmove_loop_never_rejects: "halfmove_loop c fen \<noteq> Return b"
  by (induction fen arbitrary: c) (simp_all add: halfmove_test_dead)

lemma halfmove_loop_overrun: "CHR '' '' \<notin> set fen \<Longrightarrow> halfmove_loop c fen = OutOfBounds"
  by (induction fen arbitrary: c) (auto simp: halfmove_test_dead)

lemma validate_fen_after_board:
  assumes "board_ranks 7 0 0 fen = Continue (wk, bk, rest)"
  shows "validate_fen cfg fen =
           (if validate_kings (ATOMIC cfg) (TABLEBASE_VARIANT cfg) wk bk
            then returned (remaining_fields rest) else Some False)"
  using assms
  by (simp add: validate_fen_def validate_fen_steps_def remaining_fields_def returned_def
        step_bind_def)

text \<open>
  C8. The king-count rule is applied to the kings counted by the board scan, when the scan
  has run to its end. A text that \<^verbatim>\<open>validate_fen\<close> accepts has, in its board field, exactly
  one \<open>K\<close> and one \<open>k\<close> under the default rule, and at least one king of either colour
  under the rule of the atomic build. When the board scan has run to its end, its two
  counters are the numbers of \<open>K\<close> and \<open>k\<close> in the board field; if they fail the rule the
  text is rejected there, whatever follows the board; and if they satisfy it (one of each
  by default, at least one in all for the atomic build, two or more included) the check
  of the kings rejects nothing: the result is that of the scan of the remaining fields.
\<close>

theorem validate_fen_king_count_rule:
  "(validate_fen cfg (c_str s) = Some True \<longrightarrow>
      (if ATOMIC cfg \<and> TABLEBASE_VARIANT cfg = ATOMIC_VARIANT
       then count_list (board_field s) (CHR ''K'') + count_list (board_field s) (CHR ''k'') \<ge> 1
       else count_list (board_field s) (CHR ''K'') = 1 \<and> count_list (board_field s) (CHR ''k'') = 1))
   \<and> (board_ranks 7 0 0 (c_str s) = Continue (wk, bk, rest) \<longrightarrow>
        wk = int (count_list (board_field s) (CHR ''K'')) \<and>
        bk = int (count_list (board_field s) (CHR ''k'')) \<and>
        (\<not> validate_kings (ATOMIC cfg) (TABLEBASE_VARIANT cfg) wk bk \<longrightarrow>
           validate_fen cfg (c_str s) = Some False) \<and>
        validate_fen cfg (c_str s) =
          (if (if ATOMIC cfg \<and> TABLEBASE_VARIANT cfg = ATOMIC_VARIANT
               then count_list (board_field s) (CHR ''K'') + count_list (board_field s) (CHR ''k'') \<ge> 1
               else count_list (board_field s) (CHR ''K'') = 1 \<and> count_list (board_field s) (CHR ''k'') = 1)
           then returned (remaining_fields rest) else Some False))"
proof (intro conjI impI)
  assume "validate_fen cfg (c_str s) = Some True"
  from validate_fen_accept_board[OF this] obtain wk' bk' rest' where
    b: "board_ranks 7 0 0 (c_str s) = Continue (wk', bk', rest')"
    and k: "validate_kings (ATOMIC cfg) (TABLEBASE_VARIANT cfg) wk' bk'"
    by blast
  from board_ranks_kings[OF b] k
  show "if ATOMIC cfg \<and> TABLEBASE_VARIANT cfg = ATOMIC_VARIANT
       then count_list (board_field s) (CHR ''K'') + count_list (board_field s) (CHR ''k'') \<ge> 1
       else count_list (board_field s) (CHR ''K'') = 1 \<and> count_list (board_field s) (CHR ''k'') = 1"
    by (auto simp: validate_kings_def split: if_splits)
next
  assume b: "board_ranks 7 0 0 (c_str s) = Continue (wk, bk, rest)"
  from board_ranks_kings[OF b]
  show w: "wk = int (count_list (board_field s) (CHR ''K''))"
    and k: "bk = int (count_list (board_field s) (CHR ''k''))" .
  have r: "validate_kings (ATOMIC cfg) (TABLEBASE_VARIANT cfg) wk bk =
      (if ATOMIC cfg \<and> TABLEBASE_VARIANT cfg = ATOMIC_VARIANT
       then count_list (board_field s) (CHR ''K'') + count_list (board_field s) (CHR ''k'') \<ge> 1
       else count_list (board_field s) (CHR ''K'') = 1 \<and> count_list (board_field s) (CHR ''k'') = 1)"
    unfolding validate_kings_def w k by auto
  from validate_fen_after_board[OF b, of cfg] r
  show "validate_fen cfg (c_str s) =
          (if (if ATOMIC cfg \<and> TABLEBASE_VARIANT cfg = ATOMIC_VARIANT
               then count_list (board_field s) (CHR ''K'') + count_list (board_field s) (CHR ''k'') \<ge> 1
               else count_list (board_field s) (CHR ''K'') = 1 \<and> count_list (board_field s) (CHR ''k'') = 1)
           then returned (remaining_fields rest) else Some False)"
    by simp
  assume "\<not> validate_kings (ATOMIC cfg) (TABLEBASE_VARIANT cfg) wk bk"
  from validate_fen_reject_kings[OF b this]
  show "validate_fen cfg (c_str s) = Some False" .
qed

theorem validate_fen_king_count_rule_witness:
  "validate_fen regular_chess (c_str ''8/8/8/8/8/8/8/K6k w - - 0 1'') = Some True
   \<and> count_list (board_field ''8/8/8/8/8/8/8/K6k w - - 0 1'') (CHR ''K'') = 1
   \<and> count_list (board_field ''8/8/8/8/8/8/8/K6k w - - 0 1'') (CHR ''k'') = 1
   \<and> validate_fen atomic_chess (c_str ''8/8/8/8/8/8/8/K7 w - - 0 1'') = Some True
   \<and> board_ranks 7 0 0 (c_str ''8/8/8/8/8/8/8/K7 w - - 0 1'') = Continue (1, 0, c_str ''w - - 0 1'')
   \<and> \<not> validate_kings (ATOMIC regular_chess) (TABLEBASE_VARIANT regular_chess) 1 0
   \<and> validate_fen regular_chess (c_str ''8/8/8/8/8/8/8/K7 w - - 0 1'') = Some False
   \<and> board_ranks 7 0 0 (c_str ''8/8/8/8/8/8/8/KK5k w - - 0 1'') = Continue (2, 1, c_str ''w - - 0 1'')
   \<and> returned (remaining_fields (c_str ''w - - 0 1'')) = Some True
   \<and> validate_fen atomic_chess (c_str ''8/8/8/8/8/8/8/KK5k w - - 0 1'') = Some True
   \<and> validate_fen atomic_chess (c_str ''8/8/8/8/8/8/8/K6k w - - 0 1'') = Some True
   \<and> validate_fen regular_chess (c_str ''8/8/8/8/8/8/8/KK5k w - - 0 1'') = Some False
   \<and> validate_fen atomic_chess (c_str ''8/8/8/8/8/8/8/8 w - - 0 1'') = Some False"
proof -
  have b1: "board_ranks 7 0 0 (c_str ''8/8/8/8/8/8/8/K6k w - - 0 1'') = Continue (1, 1, c_str ''w - - 0 1'')"
    and b2: "board_ranks 7 0 0 (c_str ''8/8/8/8/8/8/8/K7 w - - 0 1'') = Continue (1, 0, c_str ''w - - 0 1'')"
    and b3: "board_ranks 7 0 0 (c_str ''8/8/8/8/8/8/8/KK5k w - - 0 1'') = Continue (2, 1, c_str ''w - - 0 1'')"
    and b4: "board_ranks 7 0 0 (c_str ''8/8/8/8/8/8/8/8 w - - 0 1'') = Continue (0, 0, c_str ''w - - 0 1'')"
    by (simp_all add: validate_fen_defs)
  have r: "returned (remaining_fields (c_str ''w - - 0 1'')) = Some True"
    by (simp add: remaining_fields_def returned_def validate_fen_defs)
  have c: "ATOMIC atomic_chess \<and> TABLEBASE_VARIANT atomic_chess = ATOMIC_VARIANT"
    "\<not> (ATOMIC regular_chess \<and> TABLEBASE_VARIANT regular_chess = ATOMIC_VARIANT)"
    by (simp_all add: regular_chess_def atomic_chess_def)
  have f: "board_field ''8/8/8/8/8/8/8/K6k w - - 0 1'' = ''8/8/8/8/8/8/8/K6k''"
    "board_field ''8/8/8/8/8/8/8/K7 w - - 0 1'' = ''8/8/8/8/8/8/8/K7''"
    "board_field ''8/8/8/8/8/8/8/KK5k w - - 0 1'' = ''8/8/8/8/8/8/8/KK5k''"
    "board_field ''8/8/8/8/8/8/8/8 w - - 0 1'' = ''8/8/8/8/8/8/8/8''"
    by (simp_all add: board_field_def)
  from validate_fen_king_count_rule [of regular_chess "''8/8/8/8/8/8/8/K6k w - - 0 1''" 1 1 "c_str ''w - - 0 1''"]
    validate_fen_king_count_rule [of atomic_chess "''8/8/8/8/8/8/8/K6k w - - 0 1''" 1 1 "c_str ''w - - 0 1''"]
    validate_fen_king_count_rule [of regular_chess "''8/8/8/8/8/8/8/K7 w - - 0 1''" 1 0 "c_str ''w - - 0 1''"]
    validate_fen_king_count_rule [of atomic_chess "''8/8/8/8/8/8/8/K7 w - - 0 1''" 1 0 "c_str ''w - - 0 1''"]
    validate_fen_king_count_rule [of regular_chess "''8/8/8/8/8/8/8/KK5k w - - 0 1''" 2 1 "c_str ''w - - 0 1''"]
    validate_fen_king_count_rule [of atomic_chess "''8/8/8/8/8/8/8/KK5k w - - 0 1''" 2 1 "c_str ''w - - 0 1''"]
    validate_fen_king_count_rule [of atomic_chess "''8/8/8/8/8/8/8/8 w - - 0 1''" 0 0 "c_str ''w - - 0 1''"]
    b1 b2 b3 b4 r c f
  show ?thesis by (simp add: validate_kings_def)
qed

text \<open>
  C5. The claim is that a halfmove clock with a character that is no digit fails
  validation. The source tests \<^verbatim>\<open>c < '0' && c > '9'\<close>, which no character satisfies, where the
  loop of the fullmove number tests \<^verbatim>\<open>c < '0' || c > '9'\<close>. The text below has the halfmove
  clock \<open>x\<close> and is accepted, under every configuration.
\<close>

theorem validate_fen_accepts_letter_as_halfmove_clock:
  "validate_fen cfg (c_str ''8/8/8/8/8/8/8/K6k w - - x 1'') = Some True"
  by (simp add: validate_fen_defs)

text \<open>
  C10. The claim is that \<^verbatim>\<open>validate_fen\<close> reads nothing behind the terminator. The text below
  ends inside the halfmove clock. The loop of that field only stops at a space: it takes
  the terminator for one more character of the clock and reads on, behind the buffer.
\<close>

theorem validate_fen_reads_behind_terminator:
  "validate_fen cfg (c_str ''8/8/8/8/8/8/8/K6k w - - 0'') = None"
  by (simp add: validate_fen_defs)


section \<open>Properties of the ranking\<close>

lemmas sample_defs = MoveInfo_zero_def probed_win_def failed_probe_def stalemating_def
  zeroing_win_def quiet_win_def zeroing_loss_def quiet_loss_def cycle_a_def cycle_b_def cycle_c_def
  readme_record_def

text \<open>
  C2. The claim is that a record with a known \<^verbatim>\<open>dtz\<close> goes before one without, and likewise
  for \<^verbatim>\<open>wdl\<close>. The comparator returns \<^verbatim>\<open>b.has_dtz\<close> and \<^verbatim>\<open>b.has_wdl\<close>: the record that goes first is
  the one for which the value is not known. Here a reply whose probe failed goes before a
  probed win, and before a stalemating reply, which has a \<^verbatim>\<open>wdl\<close> and no \<^verbatim>\<open>dtz\<close>.
\<close>

theorem compare_move_info_known_dtz_goes_last:
  "has_dtz probed_win \<and> \<not> has_dtz failed_probe
   \<and> \<not> compare_move_info probed_win failed_probe \<and> compare_move_info failed_probe probed_win
   \<and> \<not> has_dtz stalemating \<and> has_wdl stalemating \<and> \<not> has_wdl failed_probe
   \<and> \<not> compare_move_info stalemating failed_probe \<and> compare_move_info failed_probe stalemating"
  by (simp add: sample_defs compare_move_info_def)

text \<open>
  C2, as the code has it. When exactly one of two records has a known \<^verbatim>\<open>dtz\<close>, the record
  without it goes first; when both or neither have it and exactly one has a known \<^verbatim>\<open>wdl\<close>,
  the record without the \<^verbatim>\<open>wdl\<close> goes first.
\<close>

theorem compare_move_info_presence_keys:
  "(has_dtz a \<noteq> has_dtz b \<longrightarrow> (compare_move_info a b \<longleftrightarrow> \<not> has_dtz a \<and> has_dtz b))
   \<and> (has_dtz a = has_dtz b \<and> has_wdl a \<noteq> has_wdl b \<longrightarrow>
        (compare_move_info a b \<longleftrightarrow> \<not> has_wdl a \<and> has_wdl b))"
  by (auto simp: compare_move_info_def)

theorem compare_move_info_presence_keys_witness:
  "has_dtz failed_probe \<noteq> has_dtz probed_win
   \<and> compare_move_info failed_probe probed_win
   \<and> has_dtz failed_probe = has_dtz stalemating \<and> has_wdl failed_probe \<noteq> has_wdl stalemating
   \<and> compare_move_info failed_probe stalemating"
  using compare_move_info_presence_keys [of failed_probe probed_win]
    compare_move_info_presence_keys [of failed_probe stalemating]
  by (simp add: sample_defs)

text \<open>
  What holds of the comparator on all records: no record goes before itself, no two
  records go before each other, and of two records with different \<^verbatim>\<open>uci\<close> one goes before
  the other. It is transitive on records that agree on whether \<^verbatim>\<open>dtm\<close> is known.
\<close>

lemma compare_move_info_irrefl: "\<not> compare_move_info a a"
  by (simp add: compare_move_info_def)

lemma compare_move_info_asym: "compare_move_info a b \<Longrightarrow> \<not> compare_move_info b a"
  unfolding compare_move_info_def by (smt (verit) order.asym)

lemma compare_move_info_total:
  "uci a \<noteq> uci b \<Longrightarrow> compare_move_info a b \<or> compare_move_info b a"
  unfolding compare_move_info_def by (smt (verit) linorder_neqE)

lemma compare_move_info_trans_same_dtm_presence:
  assumes "has_dtm a = has_dtm b" "has_dtm b = has_dtm c"
    and "compare_move_info a b" "compare_move_info b c"
  shows "compare_move_info a c"
  using assms unfolding compare_move_info_def
  by (smt (verit) order.strict_trans order.asym linorder_neqE)

text \<open>
  C3. The claim is that the comparator is a strict weak ordering, so transitive. The key
  \<^verbatim>\<open>dtm\<close> is compared only when both records have it, and whether a record has it is no
  earlier key. The three replies of \<open>cycle_table\<close> tie on every key before \<^verbatim>\<open>dtm\<close>; the
  evaluator gives the two captures a \<^verbatim>\<open>dtm\<close> and the pawn move none. By \<^verbatim>\<open>dtm\<close> the first
  capture goes before the second, by \<^verbatim>\<open>dtz\<close> the second capture goes before the pawn move and
  the pawn move before the first capture.
\<close>

theorem compare_move_info_not_transitive:
  "move_infos regular_chess (table_env cycle_table cycle_gaviota) 0 [1, 2, 3] False [1, 2, 3]
     = Done [cycle_a, cycle_b, cycle_c]
   \<and> compare_move_info cycle_a cycle_c \<and> compare_move_info cycle_c cycle_b
   \<and> \<not> compare_move_info cycle_a cycle_b \<and> compare_move_info cycle_b cycle_a"
  by code_simp

text \<open>
  C4. The claim is that of two records with the same decisive \<^verbatim>\<open>wdl\<close> the one that does not
  zero goes first when the mover wins (\<^verbatim>\<open>wdl < 0\<close>) and the zeroing one when the mover loses.
  The comparator returns \<^verbatim>\<open>a.zeroing\<close> for \<^verbatim>\<open>wdl < 0\<close> and \<^verbatim>\<open>b.zeroing\<close> for \<^verbatim>\<open>wdl > 0\<close>, the other way
  round: of two wins the zeroing one goes first, of two losses the one that does not zero.
\<close>

theorem compare_move_info_zeroing_win_goes_first:
  "has_wdl zeroing_win \<and> has_wdl quiet_win \<and> wdl zeroing_win = wdl quiet_win \<and> wdl zeroing_win < 0
   \<and> zeroing zeroing_win \<and> \<not> zeroing quiet_win
   \<and> compare_move_info zeroing_win quiet_win \<and> \<not> compare_move_info quiet_win zeroing_win
   \<and> has_wdl zeroing_loss \<and> has_wdl quiet_loss \<and> wdl zeroing_loss = wdl quiet_loss \<and> wdl zeroing_loss > 0
   \<and> zeroing zeroing_loss \<and> \<not> zeroing quiet_loss
   \<and> compare_move_info quiet_loss zeroing_loss \<and> \<not> compare_move_info zeroing_loss quiet_loss"
  by (simp add: sample_defs compare_move_info_def)

text \<open>
  C4, as the code has it. Two records have the same known \<^verbatim>\<open>wdl\<close>, differ in the zeroing
  flag and tie on the keys before it (presence of \<^verbatim>\<open>dtz\<close>, the three flags of the position,
  and \<^verbatim>\<open>dtm\<close> where both have it). Then for \<^verbatim>\<open>wdl < 0\<close> the zeroing record goes first, and for
  \<^verbatim>\<open>wdl > 0\<close> the record that does not zero.
\<close>

theorem compare_move_info_zeroing_key:
  assumes "has_wdl a" "has_wdl b" "wdl a = wdl b" "zeroing a \<noteq> zeroing b"
    and "has_dtz a = has_dtz b" "checkmate a = checkmate b" "stalemate a = stalemate b"
    and "insufficient_material a = insufficient_material b"
    and "\<not> (has_dtm a \<and> has_dtm b \<and> dtm a \<noteq> dtm b)"
  shows "(wdl a < 0 \<longrightarrow> (compare_move_info a b \<longleftrightarrow> zeroing a))
       \<and> (wdl a > 0 \<longrightarrow> (compare_move_info a b \<longleftrightarrow> \<not> zeroing a))"
  using assms by (auto simp: compare_move_info_def)

theorem compare_move_info_zeroing_key_witness:
  "has_wdl zeroing_win \<and> has_wdl quiet_win \<and> wdl zeroing_win = wdl quiet_win
   \<and> zeroing zeroing_win \<noteq> zeroing quiet_win \<and> has_dtz zeroing_win = has_dtz quiet_win
   \<and> checkmate zeroing_win = checkmate quiet_win \<and> stalemate zeroing_win = stalemate quiet_win
   \<and> insufficient_material zeroing_win = insufficient_material quiet_win
   \<and> \<not> (has_dtm zeroing_win \<and> has_dtm quiet_win \<and> dtm zeroing_win \<noteq> dtm quiet_win)
   \<and> wdl zeroing_win < 0 \<and> zeroing zeroing_win \<and> compare_move_info zeroing_win quiet_win
   \<and> wdl zeroing_loss > 0 \<and> zeroing zeroing_loss \<and> \<not> compare_move_info zeroing_loss quiet_loss"
proof -
  have w: "has_wdl zeroing_win" "has_wdl quiet_win" "wdl zeroing_win = wdl quiet_win"
    "zeroing zeroing_win \<noteq> zeroing quiet_win" "has_dtz zeroing_win = has_dtz quiet_win"
    "checkmate zeroing_win = checkmate quiet_win" "stalemate zeroing_win = stalemate quiet_win"
    "insufficient_material zeroing_win = insufficient_material quiet_win"
    "\<not> (has_dtm zeroing_win \<and> has_dtm quiet_win \<and> dtm zeroing_win \<noteq> dtm quiet_win)"
    by (simp_all add: sample_defs)
  have l: "has_wdl zeroing_loss" "has_wdl quiet_loss" "wdl zeroing_loss = wdl quiet_loss"
    "zeroing zeroing_loss \<noteq> zeroing quiet_loss" "has_dtz zeroing_loss = has_dtz quiet_loss"
    "checkmate zeroing_loss = checkmate quiet_loss" "stalemate zeroing_loss = stalemate quiet_loss"
    "insufficient_material zeroing_loss = insufficient_material quiet_loss"
    "\<not> (has_dtm zeroing_loss \<and> has_dtm quiet_loss \<and> dtm zeroing_loss \<noteq> dtm quiet_loss)"
    by (simp_all add: sample_defs)
  have v: "wdl zeroing_win < 0" "zeroing zeroing_win" "wdl zeroing_loss > 0" "zeroing zeroing_loss"
    by (simp_all add: sample_defs)
  from compare_move_info_zeroing_key [OF w] compare_move_info_zeroing_key [OF l] w v
  show ?thesis by simp
qed

section \<open>Properties of the move evaluator\<close>

lemma move_flags_sel:
  "checkmate (move_flags cfg E pos legals cq m) =
     (if ATOMIC cfg
      then legal_moves E (do_move E pos m) = [] \<and> (checkers E (do_move E pos m) \<or> is_atomic_loss E (do_move E pos m))
      else legal_moves E (do_move E pos m) = [] \<and> checkers E (do_move E pos m))"
  "stalemate (move_flags cfg E pos legals cq m) = (legal_moves E (do_move E pos m) = [] \<and> \<not> cq)"
  "insufficient_material (move_flags cfg E pos legals cq m)
     = insufficient_material_pos (TABLEBASE_VARIANT cfg) E (do_move E pos m)"
  "zeroing (move_flags cfg E pos legals cq m) = (rule50_count E (do_move E pos m) = 0)"
  "uci (move_flags cfg E pos legals cq m) = uci_move E m"
  "has_wdl (move_flags cfg E pos legals cq m) = False"
  "has_dtz (move_flags cfg E pos legals cq m) = False"
  "has_dtm (move_flags cfg E pos legals cq m) = False"
  by (simp_all add: move_flags_def Let_def MoveInfo_zero_def)

lemma move_outcome_keeps:
  assumes "move_outcome cfg E p info = Done r"
  shows "checkmate r = checkmate info" "stalemate r = stalemate info"
    "insufficient_material r = insufficient_material info" "zeroing r = zeroing info"
    "uci r = uci info" "san r = san info"
  using assms
  by (auto simp: move_outcome_def Let_def split: if_splits prod.splits run.splits)

lemma int32_id: "- (2 ^ 31) \<le> x \<Longrightarrow> x < 2 ^ 31 \<Longrightarrow> int32 x = x"
  unfolding int32_def by (simp add: sint_sbintrunc' signed_take_bit_int_eq_self)

lemma probe_dtm_defined: "probe_dtm cfg E p \<noteq> Undefined"
  by (simp add: probe_dtm_def split: option.splits prod.splits)

text \<open>What the second half returns when the DTZ probe is made and does not fail.\<close>

lemma move_outcome_probed:
  assumes "\<not> checkmate info" "\<not> stalemate info" "\<not> insufficient_material info"
    and "\<not> can_castle E p" "int (popcount (pieces E p)) \<le> MaxCardinality cfg"
    and "probe_dtz E p = (d, state)" "state \<noteq> FAIL"
  shows "move_outcome cfg E p info =
     (if GAVIOTA cfg then
        (case probe_dtm cfg E p of
           Aborted \<Rightarrow> Aborted
         | Undefined \<Rightarrow> Undefined
         | Done (success, v) \<Rightarrow>
             Done (info\<lparr>dtz := d, has_dtz := True, has_wdl := True,
                    wdl := (if d < - 100 \<and> int32 (d - rule50_count E p) \<le> - 100 then - 1
                            else if d > 100 \<and> int32 (d + rule50_count E p) \<ge> - 100 then 1
                            else if d < 0 then - 2
                            else if d > 0 then 2
                            else 0),
                    has_dtm := success, dtm := v\<rparr>))
      else
        Done (info\<lparr>dtz := d, has_dtz := True, has_wdl := True,
               wdl := (if d < - 100 \<and> int32 (d - rule50_count E p) \<le> - 100 then - 1
                       else if d > 100 \<and> int32 (d + rule50_count E p) \<ge> - 100 then 1
                       else if d < 0 then - 2
                       else if d > 0 then 2
                       else 0)\<rparr>))"
  using assms by (auto simp: move_outcome_def Let_def)







lemma move_info_terminal_flags:
  assumes "move_info cfg E pos legals cq m = Done r"
  shows "checkmate r =
           (if ATOMIC cfg
            then legal_moves E (do_move E pos m) = []
                 \<and> (checkers E (do_move E pos m) \<or> is_atomic_loss E (do_move E pos m))
            else legal_moves E (do_move E pos m) = [] \<and> checkers E (do_move E pos m))"
    and "stalemate r = (legal_moves E (do_move E pos m) = [] \<and> \<not> cq)"
proof -
  from assms have o: "move_outcome cfg E (do_move E pos m) (move_flags cfg E pos legals cq m) = Done r"
    by (simp add: move_info_def)
  from move_outcome_keeps(1,2)[OF o]
  show "checkmate r =
           (if ATOMIC cfg
            then legal_moves E (do_move E pos m) = []
                 \<and> (checkers E (do_move E pos m) \<or> is_atomic_loss E (do_move E pos m))
            else legal_moves E (do_move E pos m) = [] \<and> checkers E (do_move E pos m))"
    and "stalemate r = (legal_moves E (do_move E pos m) = [] \<and> \<not> cq)"
    by (simp_all add: move_flags_sel)
qed

text \<open>
  C1. The claim is that the stalemate flag of a record is "no legal move and not
  checkmate", so that the two flags are never both set. The source computes
  \<^verbatim>\<open>info.stalemate = num_moves == 0 && !checkmate\<close> with the variable \<^verbatim>\<open>checkmate\<close> of the position
  of the query, not \<^verbatim>\<open>info.checkmate\<close>. Inside the loop the query has a legal move, so that
  variable is false and the flag is set whenever the reply leaves no legal move. The reply
  \<^verbatim>\<open>f7g7\<close> of \<open>mate_table\<close> mates, and its record has both flags.
\<close>

theorem move_info_checkmate_is_also_stalemate:
  "move_info regular_chess (table_env mate_table []) 0 [1] False 1 =
     Done \<lparr>uci = ''f7g7'', san = ''Qg7#'', insufficient_material = False, checkmate = True,
           stalemate = True, zeroing = False, has_wdl = True, wdl = - 2, has_dtz = False, dtz = 0,
           has_dtm = True, dtm = 0\<rparr>"
  by code_simp

text \<open>
  C7. The claim is that \<^verbatim>\<open>wdl\<close> follows the thresholds on \<^verbatim>\<open>dtz\<close>, \<open>dtz - halfmoveClock\<close> and
  \<open>dtz + halfmoveClock\<close>. The source computes the difference and the sum in \<^verbatim>\<open>int\<close>. After the
  reply of \<open>overflow_table\<close> the clock is \<open>2147483601\<close> and the probe answers \<^verbatim>\<open>dtz = -101\<close>:
  \<open>dtz < -100\<close> and \<open>dtz - halfmoveClock \<le> -100\<close>, for which the claim gives \<^verbatim>\<open>wdl = -1\<close>, but
  the difference leaves the range of an \<^verbatim>\<open>int\<close>, the comparison fails and the record has
  \<^verbatim>\<open>wdl = -2\<close>.
\<close>

theorem move_info_wdl_wraps_at_large_clock:
  "move_info regular_chess (table_env overflow_table []) 0 [1] False 1 = Done overflow_record
   \<and> probe_dtz (table_env overflow_table []) (do_move (table_env overflow_table []) 0 1) = (- 101, OK)
   \<and> rule50_count (table_env overflow_table []) (do_move (table_env overflow_table []) 0 1) = 2147483601
   \<and> dtz overflow_record < - 100
   \<and> dtz overflow_record
       - rule50_count (table_env overflow_table []) (do_move (table_env overflow_table []) 0 1) \<le> - 100
   \<and> wdl overflow_record = - 2"
  by code_simp

text \<open>
  C7, as the code has it. The reply leaves a position that has a legal move (so neither
  checkmate nor stalemate) and sufficient material, for which the DTZ probe is made (no
  castling rights, at most \<^verbatim>\<open>MaxCardinality\<close> pieces) and does not fail, and the Gaviota probe,
  where it is compiled in, does not abort. If \<open>dtz - halfmoveClock\<close> and
  \<open>dtz + halfmoveClock\<close> fit an \<^verbatim>\<open>int\<close>, the evaluator returns a record that holds the probed
  \<^verbatim>\<open>dtz\<close> and the \<^verbatim>\<open>wdl\<close> that the thresholds of the claim give for it and the halfmove clock
  of that position.
\<close>

theorem move_info_wdl_thresholds:
  assumes "legal_moves E (do_move E pos m) \<noteq> []"
    and "\<not> insufficient_material_pos (TABLEBASE_VARIANT cfg) E (do_move E pos m)"
    and "\<not> can_castle E (do_move E pos m)"
    and "int (popcount (pieces E (do_move E pos m))) \<le> MaxCardinality cfg"
    and "probe_dtz E (do_move E pos m) = (d, state)" "state \<noteq> FAIL"
    and "GAVIOTA cfg \<longrightarrow> probe_dtm cfg E (do_move E pos m) \<noteq> Aborted"
    and "- (2 ^ 31) \<le> d - rule50_count E (do_move E pos m)"
    and "d - rule50_count E (do_move E pos m) < 2 ^ 31"
    and "- (2 ^ 31) \<le> d + rule50_count E (do_move E pos m)"
    and "d + rule50_count E (do_move E pos m) < 2 ^ 31"
  shows "\<exists>r. move_info cfg E pos legals cq m = Done r
       \<and> has_dtz r \<and> dtz r = d \<and> has_wdl r
       \<and> wdl r = (if d < - 100 \<and> d - rule50_count E (do_move E pos m) \<le> - 100 then - 1
                  else if d > 100 \<and> d + rule50_count E (do_move E pos m) \<ge> - 100 then 1
                  else if d < 0 then - 2
                  else if d > 0 then 2
                  else 0)"
proof -
  let ?p = "do_move E pos m"
  let ?info = "move_flags cfg E pos legals cq m"
  have m: "move_info cfg E pos legals cq m = move_outcome cfg E ?p ?info"
    by (simp add: move_info_def)
  from assms(1,2) have t: "\<not> checkmate ?info" "\<not> stalemate ?info" "\<not> insufficient_material ?info"
    by (simp_all add: move_flags_sel)
  note o = move_outcome_probed[OF t assms(3-6)]
  note w = int32_id[OF assms(8,9)] int32_id[OF assms(10,11)]
  show ?thesis
  proof (cases "GAVIOTA cfg")
    case False
    with o m w show ?thesis by simp
  next
    case True
    with assms(7) probe_dtm_defined[of cfg E ?p]
    obtain success v where "probe_dtm cfg E ?p = Done (success, v)"
      by (cases "probe_dtm cfg E ?p") auto
    with True o m w show ?thesis by simp
  qed
qed

theorem move_info_wdl_thresholds_witness:
  "legal_moves (table_env readme_table readme_gaviota)
      (do_move (table_env readme_table readme_gaviota) 0 1) \<noteq> []
   \<and> \<not> insufficient_material_pos (TABLEBASE_VARIANT regular_chess) (table_env readme_table readme_gaviota)
          (do_move (table_env readme_table readme_gaviota) 0 1)
   \<and> \<not> can_castle (table_env readme_table readme_gaviota)
          (do_move (table_env readme_table readme_gaviota) 0 1)
   \<and> int (popcount (pieces (table_env readme_table readme_gaviota)
          (do_move (table_env readme_table readme_gaviota) 0 1))) \<le> MaxCardinality regular_chess
   \<and> probe_dtz (table_env readme_table readme_gaviota)
          (do_move (table_env readme_table readme_gaviota) 0 1) = (109, OK)
   \<and> probe_dtm regular_chess (table_env readme_table readme_gaviota)
          (do_move (table_env readme_table readme_gaviota) 0 1) \<noteq> Aborted
   \<and> rule50_count (table_env readme_table readme_gaviota)
          (do_move (table_env readme_table readme_gaviota) 0 1) = 0
   \<and> move_info regular_chess (table_env readme_table readme_gaviota) 0 [1] False 1 = Done readme_record
   \<and> has_dtz readme_record \<and> dtz readme_record = 109 \<and> has_wdl readme_record \<and> wdl readme_record = 1"
proof -
  let ?E = "table_env readme_table readme_gaviota"
  have h1: "legal_moves ?E (do_move ?E 0 1) \<noteq> []" by code_simp
  have h2: "\<not> insufficient_material_pos (TABLEBASE_VARIANT regular_chess) ?E (do_move ?E 0 1)"
    by code_simp
  have h3: "\<not> can_castle ?E (do_move ?E 0 1)" by code_simp
  have h4: "int (popcount (pieces ?E (do_move ?E 0 1))) \<le> MaxCardinality regular_chess" by code_simp
  have h5: "probe_dtz ?E (do_move ?E 0 1) = (109, OK)" by code_simp
  have h6: "OK \<noteq> FAIL" by simp
  have g: "probe_dtm regular_chess ?E (do_move ?E 0 1) \<noteq> Aborted" by code_simp
  then have h7: "GAVIOTA regular_chess \<longrightarrow> probe_dtm regular_chess ?E (do_move ?E 0 1) \<noteq> Aborted"
    by simp
  have r: "rule50_count ?E (do_move ?E 0 1) = 0" by code_simp
  have h8: "- (2 ^ 31) \<le> 109 - rule50_count ?E (do_move ?E 0 1)"
    and h9: "109 - rule50_count ?E (do_move ?E 0 1) < 2 ^ 31"
    and h10: "- (2 ^ 31) \<le> 109 + rule50_count ?E (do_move ?E 0 1)"
    and h11: "109 + rule50_count ?E (do_move ?E 0 1) < 2 ^ 31"
    unfolding r by simp_all
  have e: "move_info regular_chess ?E 0 [1] False 1 = Done readme_record" by code_simp
  from move_info_wdl_thresholds [OF h1 h2 h3 h4 h5 h6 h7 h8 h9 h10 h11, where legals = "[1]" and cq = False]
    h1 h2 h3 h4 h5 g r e
  show ?thesis by (simp add: readme_record_def)
qed




section \<open>Properties of the query resolver\<close>

text \<open>
  What the resolver does right: when the query has a \<^verbatim>\<open>fen\<close> parameter that is not empty
  and \<^verbatim>\<open>validate_fen\<close> returns false on it, with \<open>_\<close> replaced by spaces, the reply is the
  error \<^verbatim>\<open>Invalid FEN\<close>, with status 400, and the parser has not been called.
\<close>

lemma get_api_rejected_text:
  assumes "evhttp_parse_query E u = Some query" "evhttp_find_header E query ''fen'' = Some f" "f \<noteq> []"
    and "validate_fen cfg (c_str (map (\<lambda>c. if c = CHR ''_'' then CHR '' '' else c) f)) = Some False"
  shows "get_api cfg E (Some u) =
           ([], Done \<lparr>headers = (if cors E then [(''Access-Control-Allow-Origin'', ''*'')] else []),
                      sent = Send_Error 400 ''Invalid FEN''\<rparr>)"
  using assms by (simp add: get_api_def Let_def)

text \<open>
  C6. The claim is that a request whose position text fails validation gets the error
  \<^verbatim>\<open>Invalid FEN\<close> and that the parser is never called on it. The resolver calls the parser
  on whatever \<^verbatim>\<open>validate_fen\<close> lets through, and the loop of the halfmove clock lets through
  texts that are no valid position text. The first request below has the halfmove clock
  \<open>x\<close>: its text is given to the parser and the reply is no error. The second has no
  separator between the halfmove clock and the fullmove number: \<^verbatim>\<open>validate_fen\<close> reads behind
  the buffer, and what the resolver does next is not defined.
\<close>

theorem get_api_parses_text_with_letter_as_halfmove_clock:
  "validate_fen regular_chess (c_str ''8/6B1/8/8/B7/8/K1pk4/8 b - - x 1'') = Some True
   \<and> fst (get_api regular_chess (table_env readme_table readme_gaviota)
            (Some ''8/6B1/8/8/B7/8/K1pk4/8_b_-_-_x_1'')) = [''8/6B1/8/8/B7/8/K1pk4/8 b - - x 1'']
   \<and> snd (get_api regular_chess (table_env readme_table readme_gaviota)
            (Some ''8/6B1/8/8/B7/8/K1pk4/8_b_-_-_x_1''))
       \<noteq> Done \<lparr>headers = [], sent = Send_Error 400 ''Invalid FEN''\<rparr>
   \<and> get_api regular_chess (table_env readme_table readme_gaviota)
            (Some ''8/6B1/8/8/B7/8/K1pk4/8_b_-_-_01'') = ([], Undefined)"
  by code_simp

end
